theory Spec2Isabelle
  imports Main "HOL-Library.Sublist"
begin

section \<open>Strings as the server uses them\<close>

text \<open>
  The server is \<^verbatim>\<open>src/mcp_cps_data/server.py\<close>. Its strings are modelled as
  \<^typ>\<open>string\<close>; the model covers ASCII text: whitespace is the ASCII part of what
  Python's \<^verbatim>\<open>str.strip()\<close> removes (tab, line feed, vertical tab, form feed,
  carriage return, the four separators 28..31 and the space), and the case mappings act
  on the letters a..z and A..Z and leave every other character as it is.
\<close>

definition is_space :: "char \<Rightarrow> bool" where
  "is_space c = (let n = (of_char c :: nat) in (9 \<le> n \<and> n \<le> 13) \<or> (28 \<le> n \<and> n \<le> 32))"

definition is_lower :: "char \<Rightarrow> bool" where
  "is_lower c = (let n = (of_char c :: nat) in 97 \<le> n \<and> n \<le> 122)"

definition is_upper :: "char \<Rightarrow> bool" where
  "is_upper c = (let n = (of_char c :: nat) in 65 \<le> n \<and> n \<le> 90)"

definition is_cased :: "char \<Rightarrow> bool" where
  "is_cased c = (is_lower c \<or> is_upper c)"

definition to_upper :: "char \<Rightarrow> char" where
  "to_upper c = (if is_lower c then char_of ((of_char c :: nat) - 32) else c)"

definition to_lower :: "char \<Rightarrow> char" where
  "to_lower c = (if is_upper c then char_of ((of_char c :: nat) + 32) else c)"

text \<open>\<^verbatim>\<open>str.strip()\<close>: whitespace is dropped at both ends.\<close>

definition strip :: "string \<Rightarrow> string" where
  "strip s = rev (dropWhile is_space (rev (dropWhile is_space s)))"

text \<open>\<^verbatim>\<open>str.upper()\<close> and \<^verbatim>\<open>str.lower()\<close>.\<close>

definition upper :: "string \<Rightarrow> string" where
  "upper s = map to_upper s"

definition lower :: "string \<Rightarrow> string" where
  "lower s = map to_lower s"

text \<open>
  \<^verbatim>\<open>str.title()\<close>: a cased character is lower-cased when the character before it is
  cased, and upper-cased otherwise; the flag starts False.
\<close>

fun title_from :: "bool \<Rightarrow> string \<Rightarrow> string" where
  "title_from previous_is_cased [] = []"
| "title_from previous_is_cased (c # cs) =
     (if previous_is_cased then to_lower c else to_upper c) # title_from (is_cased c) cs"

definition title :: "string \<Rightarrow> string" where
  "title s = title_from False s"

text \<open>\<^verbatim>\<open>str.startswith\<close>, with one prefix and with a tuple of prefixes.\<close>

fun startswith :: "string \<Rightarrow> string \<Rightarrow> bool" where
  "startswith s [] = True"
| "startswith [] (p # ps) = False"
| "startswith (c # cs) (p # ps) = (c = p \<and> startswith cs ps)"

fun startswith_any :: "string \<Rightarrow> string list \<Rightarrow> bool" where
  "startswith_any s [] = False"
| "startswith_any s (p # ps) = (startswith s p \<or> startswith_any s ps)"

section \<open>Exceptions\<close>

text \<open>
  The exceptions the server raises or receives, all subclasses of Python's
  \<^verbatim>\<open>Exception\<close>. \<open>SqliteError\<close> stands for \<^verbatim>\<open>sqlite3.Error\<close> and its subclasses,
  \<open>OtherError\<close> for any other exception of a library (the embedder, the reranker, the
  vector store). Each carries what \<^verbatim>\<open>str(e)\<close> is built from.
\<close>

datatype error =
    ValueError string
  | KeyError string
  | TypeError string
  | SqliteError string
  | OtherError string

definition quote :: char where
  "quote = CHR 0x27"

text \<open>\<^verbatim>\<open>str(e)\<close>: the message; for a KeyError the repr of the missing key.\<close>

fun str_error :: "error \<Rightarrow> string" where
  "str_error (ValueError m) = m"
| "str_error (KeyError k) = quote # k @ [quote]"
| "str_error (TypeError m) = m"
| "str_error (SqliteError m) = m"
| "str_error (OtherError m) = m"

section \<open>The relational store: \<^verbatim>\<open>CPSSqliteDB\<close>\<close>

text \<open>
  What the code does to the store is recorded in a log of events. A connection is named
  by the length of the log at the moment it is opened, so that no two connections of
  one log share a name.
\<close>

datatype event =
    Connect nat
  | OpenCursor nat
  | Execute nat string
  | CloseCursor nat
  | CloseConn nat

type_synonym trace = "event list"

type_synonym 'a io = "trace \<Rightarrow> (error + 'a) \<times> trace"

text \<open>
  The \<^verbatim>\<open>sqlite3\<close> library is a parameter: whether \<^verbatim>\<open>sqlite3.connect(path)\<close>
  raises, what \<^verbatim>\<open>cursor.execute(query)\<close> followed by \<^verbatim>\<open>cursor.fetchall()\<close> gives,
  and \<^verbatim>\<open>dict(row)\<close>.
\<close>

record ('row, 'rec) sqlite3 =
  connect_error :: "string \<Rightarrow> error option"
  execute_fetchall :: "string \<Rightarrow> error + 'row list"
  dict_of_row :: "'row \<Rightarrow> 'rec"

record CPSSqliteDB =
  sqlite_path :: string

text \<open>
  \<^verbatim>\<open>with closing(thing) as x: body\<close>, once \<open>thing\<close> exists: the body runs, and
  \<^verbatim>\<open>thing.close()\<close> runs after it whether the body returned or raised.
\<close>

definition closing :: "event \<Rightarrow> 'a io \<Rightarrow> 'a io" where
  "closing release body t = (case body t of (r, t') \<Rightarrow> (r, t' @ [release]))"

definition write_keywords :: "string list" where
  "write_keywords = [''INSERT'', ''UPDATE'', ''DELETE'', ''CREATE'', ''DROP'', ''ALTER'']"

text \<open>
  \<^verbatim>\<open>CPSSqliteDB._execute_query\<close> (lines 29-45). The calls to the logger are left
  out; the \<^verbatim>\<open>except\<close> clause logs and raises the same exception again.
\<close>

definition CPSSqliteDB_execute_query ::
  "('row, 'rec) sqlite3 \<Rightarrow> CPSSqliteDB \<Rightarrow> string \<Rightarrow> 'rec list io" where
  "CPSSqliteDB_execute_query lib self query t =
     (if startswith_any (upper (strip query)) write_keywords
      then (Inl (ValueError ''Only read queries are allowed!!''), t)
      else
        (case connect_error lib (sqlite_path self) of
           Some e \<Rightarrow> (Inl e, t)
         | None \<Rightarrow>
             (let conn = length t in
              closing (CloseConn conn)
                (\<lambda>t1. closing (CloseCursor conn)
                   (\<lambda>t2. case execute_fetchall lib query of
                            Inl e \<Rightarrow> (Inl e, t2 @ [Execute conn query])
                          | Inr rows \<Rightarrow>
                              (Inr (map (dict_of_row lib) rows), t2 @ [Execute conn query]))
                   (t1 @ [OpenCursor conn]))
                (t @ [Connect conn]))))"

text \<open>The connections a log opened, and those of them it never closed.\<close>

fun opened :: "trace \<Rightarrow> nat list" where
  "opened [] = []"
| "opened (Connect c # t) = c # opened t"
| "opened (e # t) = opened t"

definition leaked :: "trace \<Rightarrow> nat list" where
  "leaked t = filter (\<lambda>c. CloseConn c \<notin> set t) (opened t)"

text \<open>
  A log is well named when every connection it mentions was named from a shorter log,
  as \<open>CPSSqliteDB_execute_query\<close> names them.
\<close>

fun conn_of :: "event \<Rightarrow> nat" where
  "conn_of (Connect c) = c"
| "conn_of (OpenCursor c) = c"
| "conn_of (Execute c q) = c"
| "conn_of (CloseCursor c) = c"
| "conn_of (CloseConn c) = c"

definition names_bounded :: "trace \<Rightarrow> bool" where
  "names_bounded t = list_all (\<lambda>e. conn_of e < length t) t"

section \<open>The vector store: \<^verbatim>\<open>SqliteLanceDB\<close>\<close>

text \<open>
  A row of the table \<^verbatim>\<open>webpagechunk\<close>: a text body and a metadata object with the
  fields \<^verbatim>\<open>school_name\<close> and \<^verbatim>\<open>page_url\<close> (the stored vector is read by the
  library only).
\<close>

record chunk_metadata =
  school_name :: string
  page_url :: string

record chunk =
  metadata :: chunk_metadata
  chunk_text :: string

text \<open>
  The object that \<^verbatim>\<open>table.search(vector)\<close> returns and that the methods
  \<^verbatim>\<open>where\<close>, \<^verbatim>\<open>rerank\<close> and \<^verbatim>\<open>limit\<close> fill in, each returning the object.
\<close>

record 'v query_builder =
  query_table :: "chunk list"
  query_vector :: 'v
  where_clause :: "(string \<times> bool) option"
  rerank_with :: "(string \<times> (string \<Rightarrow> chunk list \<Rightarrow> error + chunk list)) option"
  limit_k :: "nat option"

definition search :: "chunk list \<Rightarrow> 'v \<Rightarrow> 'v query_builder" where
  "search tbl v =
     \<lparr>query_table = tbl, query_vector = v, where_clause = None, rerank_with = None,
      limit_k = None\<rparr>"

definition where_filter :: "string \<Rightarrow> bool \<Rightarrow> 'v query_builder \<Rightarrow> 'v query_builder" where
  "where_filter flt prefilter q = q\<lparr>where_clause := Some (flt, prefilter)\<rparr>"

definition rerank ::
  "string \<Rightarrow> (string \<Rightarrow> chunk list \<Rightarrow> error + chunk list) \<Rightarrow> 'v query_builder \<Rightarrow> 'v query_builder"
  where
  "rerank query_string reranker q = q\<lparr>rerank_with := Some (query_string, reranker)\<rparr>"

definition limit :: "nat \<Rightarrow> 'v query_builder \<Rightarrow> 'v query_builder" where
  "limit k q = q\<lparr>limit_k := Some k\<rparr>"

text \<open>
  Modelled from the spec: the filter language of the vector-store library, which is not
  part of the repository (section 4.3, step 2: an exact equality test on
  \<^verbatim>\<open>metadata.school_name\<close>; section 6). The one form the server writes is the test
  of \<^verbatim>\<open>metadata.school_name\<close> against a string literal in single quotes, read as SQL
  reads a literal: a doubled quote stands for one quote, and the first single quote that
  is not doubled ends the literal. \<open>sql_literal\<close> reads a literal from the text after
  its opening quote and returns its value with the text that follows the closing quote.
\<close>

datatype filter_expr = SchoolNameEq string

fun sql_literal :: "string \<Rightarrow> (string \<times> string) option" where
  "sql_literal [] = None"
| "sql_literal [c] = (if c = quote then Some ([], []) else None)"
| "sql_literal (c # d # ds) =
     (if c = quote then
        (if d = quote then map_option (apfst ((#) quote)) (sql_literal ds)
         else Some ([], d # ds))
      else map_option (apfst ((#) c)) (sql_literal (d # ds)))"

definition filter_head :: string where
  "filter_head = ''metadata.school_name = '' @ [quote]"

definition parse_filter :: "string \<Rightarrow> filter_expr option" where
  "parse_filter flt =
     (if startswith flt filter_head then
        (case sql_literal (drop (length filter_head) flt) of
           Some (lit, []) \<Rightarrow> Some (SchoolNameEq lit)
         | _ \<Rightarrow> None)
      else None)"

text \<open>
  The library behind the table is a parameter: \<open>nearest\<close> is the nearest-neighbour
  lookup of a vector among rows, \<open>other_filter\<close> is what the store makes of a filter
  that is not the equality test above (an error, or some predicate on rows).
\<close>

record 'v lance_lib =
  nearest :: "'v \<Rightarrow> chunk list \<Rightarrow> chunk list"
  other_filter :: "string \<Rightarrow> error + (chunk \<Rightarrow> bool)"

definition filter_predicate :: "'v lance_lib \<Rightarrow> string \<Rightarrow> error + (chunk \<Rightarrow> bool)" where
  "filter_predicate lib flt =
     (case parse_filter flt of
        Some (SchoolNameEq lit) \<Rightarrow> Inr (\<lambda>c. school_name (metadata c) = lit)
      | None \<Rightarrow> other_filter lib flt)"

text \<open>
  Modelled from the spec: the execution of a query by the vector-store library, which is
  not part of the repository (section 4.3, steps 2 to 4, and section 6). The candidates
  are the nearest neighbours of the vector among the rows that pass the prefilter (a
  filter that is not a prefilter is applied to the neighbours instead); the reranker
  orders the surviving candidates from the query string; the result is cut to the limit.
  The lookup itself is taken not to raise; the filter and the reranker may.
\<close>

definition to_list :: "'v lance_lib \<Rightarrow> 'v query_builder \<Rightarrow> error + chunk list" where
  "to_list lib q =
     (case (case where_clause q of
              None \<Rightarrow> Inr (nearest lib (query_vector q) (query_table q))
            | Some (flt, prefilter) \<Rightarrow>
                (case filter_predicate lib flt of
                   Inl e \<Rightarrow> Inl e
                 | Inr p \<Rightarrow>
                     Inr (if prefilter
                          then nearest lib (query_vector q) (filter p (query_table q))
                          else filter p (nearest lib (query_vector q) (query_table q))))) of
        Inl e \<Rightarrow> Inl e
      | Inr candidates \<Rightarrow>
          (case (case rerank_with q of
                   None \<Rightarrow> Inr candidates
                 | Some (query_string, reranker) \<Rightarrow> reranker query_string candidates) of
             Inl e \<Rightarrow> Inl e
           | Inr ranked \<Rightarrow>
               Inr (case limit_k q of None \<Rightarrow> ranked | Some k \<Rightarrow> take k ranked)))"

text \<open>
  The object built by \<^verbatim>\<open>SqliteLanceDB.__init__\<close>: the opened table, the embedder
  (its \<^verbatim>\<open>encode\<close>) and the reranker.
\<close>

record 'v SqliteLanceDB =
  table :: "chunk list"
  embedder_encode :: "string \<Rightarrow> error + 'v"
  reranker :: "string \<Rightarrow> chunk list \<Rightarrow> error + chunk list"

text \<open>The dictionary built for each row on line 66, with its keys in order.\<close>

definition search_result :: "chunk \<Rightarrow> (string \<times> string) list" where
  "search_result result =
     [(''school_name'', school_name (metadata result)),
      (''page_url'', page_url (metadata result)),
      (''content'', chunk_text result)]"

text \<open>
  The f-string of line 64, \<^verbatim>\<open>f"metadata.school_name = '{school_name.title()}'"\<close>.
\<close>

definition school_name_filter :: "string \<Rightarrow> string" where
  "school_name_filter name = ''metadata.school_name = '' @ [quote] @ title name @ [quote]"

text \<open>\<^verbatim>\<open>SqliteLanceDB._execute_query\<close> (lines 59-66).\<close>

definition SqliteLanceDB_execute_query ::
  "'v lance_lib \<Rightarrow> 'v SqliteLanceDB \<Rightarrow> string \<Rightarrow> string option \<Rightarrow>
     error + (string \<times> string) list list" where
  "SqliteLanceDB_execute_query lib self question school_name_arg =
     (case embedder_encode self question of
        Inl e \<Rightarrow> Inl e
      | Inr question_embedding \<Rightarrow>
          (case (case school_name_arg of
                   None \<Rightarrow>
                     to_list lib
                       (limit 10 (rerank question (reranker self)
                          (search (table self) question_embedding)))
                 | Some name \<Rightarrow>
                     if name = [] \<or> strip name = [] then
                       to_list lib
                         (limit 10 (rerank question (reranker self)
                            (search (table self) question_embedding)))
                     else
                       to_list lib
                         (limit 10 (rerank question (reranker self)
                            (where_filter (school_name_filter name) True
                               (search (table self) question_embedding))))) of
             Inl e \<Rightarrow> Inl e
           | Inr found \<Rightarrow> Inr (map search_result found)))"

section \<open>The dispatcher: \<^verbatim>\<open>handle_call_tool\<close>\<close>

datatype content = TextContent string | ImageContent | EmbeddedResource

text \<open>
  \<^verbatim>\<open>arguments[key]\<close> for \<^verbatim>\<open>arguments: dict | None\<close>. The values are strings, as
  the input schemas of the two tools declare.
\<close>

definition getitem :: "(string \<rightharpoonup> string) option \<Rightarrow> string \<Rightarrow> error + string" where
  "getitem arguments key =
     (case arguments of
        None \<Rightarrow>
          Inl (TypeError (quote # ''NoneType'' @ quote # '' object is not subscriptable''))
      | Some d \<Rightarrow> (case d key of None \<Rightarrow> Inl (KeyError key) | Some v \<Rightarrow> Inr v))"

text \<open>
  What \<^verbatim>\<open>main\<close> builds and the handler closes over: the two databases with their
  libraries, and \<^verbatim>\<open>str\<close> on each kind of result.
\<close>

record ('row, 'rec, 'v) server =
  sqlite3_lib :: "('row, 'rec) sqlite3"
  sqlitedb :: CPSSqliteDB
  lance_library :: "'v lance_lib"
  lancedb :: "'v SqliteLanceDB"
  str_records :: "'rec list \<Rightarrow> string"
  str_results :: "(string \<times> string) list list \<Rightarrow> string"

text \<open>The body of the \<^verbatim>\<open>try\<close> statement (lines 131-138).\<close>

definition call_tool_body ::
  "('row, 'rec, 'v) server \<Rightarrow> string \<Rightarrow> (string \<rightharpoonup> string) option \<Rightarrow> content list io" where
  "call_tool_body srv name arguments t =
     (if name = ''query_schools_and_neighborhoods'' then
        (case getitem arguments ''query'' of
           Inl e \<Rightarrow> (Inl e, t)
         | Inr query \<Rightarrow>
             (case CPSSqliteDB_execute_query (sqlite3_lib srv) (sqlitedb srv) query t of
                (Inl e, t') \<Rightarrow> (Inl e, t')
              | (Inr results, t') \<Rightarrow> (Inr [TextContent (str_records srv results)], t')))
      else if name = ''query_school_websites'' then
        (case getitem arguments ''question'' of
           Inl e \<Rightarrow> (Inl e, t)
         | Inr question \<Rightarrow>
             (case SqliteLanceDB_execute_query (lance_library srv) (lancedb srv) question
                     (case arguments of None \<Rightarrow> None | Some d \<Rightarrow> d ''school_name'') of
                Inl e \<Rightarrow> (Inl e, t)
              | Inr results \<Rightarrow> (Inr [TextContent (str_results srv results)], t)))
      else (Inl (ValueError (''Unknown tool: '' @ name)), t))"

text \<open>
  \<^verbatim>\<open>handle_call_tool\<close> (lines 126-142): the body under its two handlers,
  \<^verbatim>\<open>except sqlite3.Error\<close> first and \<^verbatim>\<open>except Exception\<close> second.
\<close>

definition handle_call_tool ::
  "('row, 'rec, 'v) server \<Rightarrow> string \<Rightarrow> (string \<rightharpoonup> string) option \<Rightarrow> content list io" where
  "handle_call_tool srv name arguments t =
     (case call_tool_body srv name arguments t of
        (Inr response, t') \<Rightarrow> (Inr response, t')
      | (Inl (SqliteError m), t') \<Rightarrow>
          (Inr [TextContent (''Database error: '' @ str_error (SqliteError m))], t')
      | (Inl e, t') \<Rightarrow> (Inr [TextContent (''Error: '' @ str_error e)], t'))"

section \<open>Concrete inputs\<close>

text \<open>
  A store whose every query succeeds with no row, a store holding the one row of the
  neighbourhood table, and the object of the server that names the database file.
\<close>

definition empty_store :: "((string \<times> string) list, (string \<times> string) list) sqlite3" where
  "empty_store =
     \<lparr>connect_error = (\<lambda>path. None), execute_fetchall = (\<lambda>query. Inr []),
      dict_of_row = (\<lambda>row. row)\<rparr>"

definition cps_db :: CPSSqliteDB where
  "cps_db = \<lparr>sqlite_path = ''cps.db''\<rparr>"

definition select_none :: string where
  "select_none = ''SELECT school_name FROM schooltoneighborhood WHERE school_id < 0''"

definition drop_table :: string where
  "drop_table = ''  Drop TABLE schooltoneighborhood''"

text \<open>
  A table of two rows, one for each of two schools; an embedder that gives the length of
  the question, a lookup and a reranker that keep the rows as they come, and a store
  that refuses every filter other than the equality test.
\<close>

definition abc_chunk :: chunk where
  "abc_chunk =
     \<lparr>metadata = \<lparr>school_name = ''ABC HIGH SCHOOL'', page_url = ''https://abc.example/bell''\<rparr>,
      chunk_text = ''School starts at 8:00.''\<rparr>"

definition xyz_chunk :: chunk where
  "xyz_chunk =
     \<lparr>metadata = \<lparr>school_name = ''XYZ ACADEMY'', page_url = ''https://xyz.example/hours''\<rparr>,
      chunk_text = ''Doors open at 7:45.''\<rparr>"

definition plain_lib :: "nat lance_lib" where
  "plain_lib =
     \<lparr>nearest = (\<lambda>v rows. rows),
      other_filter = (\<lambda>flt. Inl (OtherError ''invalid filter''))\<rparr>"

definition two_schools :: "nat SqliteLanceDB" where
  "two_schools =
     \<lparr>table = [abc_chunk, xyz_chunk], embedder_encode = (\<lambda>text. Inr (length text)),
      reranker = (\<lambda>query_string rows. Inr (rev rows))\<rparr>"

definition obrien :: string where
  "obrien = ''o'' @ [quote] @ ''brien''"

text \<open>
  The same server with an embedder that raises on the empty text, and with a third row
  whose school name is written in title case.
\<close>

definition picky_embedder :: "nat SqliteLanceDB" where
  "picky_embedder =
     two_schools\<lparr>embedder_encode :=
       (\<lambda>text. if text = [] then Inl (OtherError ''empty input'') else Inr (length text))\<rparr>"

definition abc_titled_chunk :: chunk where
  "abc_titled_chunk =
     \<lparr>metadata = \<lparr>school_name = ''Abc High School'', page_url = ''https://abc.example/''\<rparr>,
      chunk_text = ''Welcome.''\<rparr>"

definition three_chunks :: "nat SqliteLanceDB" where
  "three_chunks = two_schools\<lparr>table := [abc_chunk, abc_titled_chunk, xyz_chunk]\<rparr>"

text \<open>
  A school name that closes the literal and adds a disjunct: its filter reads
  \<^verbatim>\<open>metadata.school_name = 'X' Or '1'='1'\<close>. The store \<open>sql_or_lib\<close> takes this one
  expression as SQL does, true of every row, and refuses every other expression that is
  not the equality test.
\<close>

definition or_injection :: string where
  "or_injection = ''x'' @ [quote] @ '' or '' @ [quote] @ ''1'' @ [quote] @ ''='' @ [quote] @ ''1''"

definition sql_or_lib :: "nat lance_lib" where
  "sql_or_lib =
     \<lparr>nearest = (\<lambda>v rows. rows),
      other_filter =
        (\<lambda>flt. if flt = school_name_filter or_injection then Inr (\<lambda>c. True)
               else Inl (OtherError ''invalid filter''))\<rparr>"

definition example_server ::
  "((string \<times> string) list, (string \<times> string) list, nat) server" where
  "example_server =
     \<lparr>sqlite3_lib = empty_store, sqlitedb = cps_db, lance_library = plain_lib,
      lancedb = two_schools, str_records = (\<lambda>records. ''[]''),
      str_results = (\<lambda>results. ''[]'')\<rparr>"

section \<open>The query guard\<close>

lemma startswith_prefix: "startswith s p = prefix p s"
  by (induction s p rule: startswith.induct) auto

lemma startswith_any_iff: "startswith_any s ps = (\<exists>p \<in> set ps. prefix p s)"
  by (induction ps) (auto simp: startswith_prefix)

lemma to_upper_to_lower: "to_upper (to_lower c) = to_upper c"
proof (cases "is_upper c")
  case True
  then have "is_lower (char_of ((of_char c :: nat) + 32))"
    by (simp add: is_lower_def is_upper_def Let_def)
  with True show ?thesis
    by (simp add: to_upper_def to_lower_def is_lower_def is_upper_def Let_def)
next
  case False
  then show ?thesis by (simp add: to_lower_def)
qed

lemma upper_lower: "upper (lower s) = upper s"
  by (simp add: upper_def lower_def to_upper_to_lower)

lemma upper_keyword: "k \<in> set write_keywords \<Longrightarrow> upper k = k"
  by (auto simp: write_keywords_def upper_def to_upper_def is_lower_def)

lemma prefix_upper:
  assumes "prefix (lower k) (lower s)"
  shows "prefix (upper k) (upper s)"
proof -
  from assms have "prefix (map to_upper (lower k)) (map to_upper (lower s))"
    by (rule map_mono_prefix)
  then show ?thesis using upper_lower by (simp add: upper_def)
qed

text \<open>
  C1. A query whose stripped text starts, letter case aside, with one of INSERT, UPDATE,
  DELETE, CREATE, DROP, ALTER is rejected: the relational query operation raises the
  ValueError to its caller and leaves the log of the store as it was, so that no
  connection is opened and nothing is executed.
\<close>

theorem guard_rejects_writes:
  assumes "k \<in> set write_keywords"
    and "prefix (lower k) (lower (strip query))"
  shows "CPSSqliteDB_execute_query lib self query t =
           (Inl (ValueError ''Only read queries are allowed!!''), t)"
proof -
  have "prefix k (upper (strip query))"
    using prefix_upper [OF assms(2)] upper_keyword [OF assms(1)] by simp
  then have "startswith_any (upper (strip query)) write_keywords"
    using assms(1) by (auto simp: startswith_any_iff)
  then show ?thesis by (simp add: CPSSqliteDB_execute_query_def)
qed

theorem guard_rejects_writes_witness:
  "''DROP'' \<in> set write_keywords \<and>
   prefix (lower ''DROP'') (lower (strip drop_table)) \<and>
   CPSSqliteDB_execute_query empty_store cps_db drop_table [] =
     (Inl (ValueError ''Only read queries are allowed!!''), [])"
proof -
  have h1: "''DROP'' \<in> set write_keywords" by (simp add: write_keywords_def)
  have h2: "prefix (lower ''DROP'') (lower (strip drop_table))" by code_simp
  from guard_rejects_writes [OF h1 h2] h1 h2 show ?thesis by blast
qed

section \<open>The relational executor\<close>

text \<open>
  C7. A query that passes the guard and that the store executes with no row gives the
  empty sequence of records, not an error.
\<close>

theorem zero_rows_empty_sequence:
  assumes "\<not> startswith_any (upper (strip query)) write_keywords"
    and "connect_error lib (sqlite_path self) = None"
    and "execute_fetchall lib query = Inr []"
  shows "fst (CPSSqliteDB_execute_query lib self query t) = Inr []"
  using assms by (simp add: CPSSqliteDB_execute_query_def closing_def Let_def)

theorem zero_rows_empty_sequence_witness:
  "\<not> startswith_any (upper (strip select_none)) write_keywords \<and>
   connect_error empty_store (sqlite_path cps_db) = None \<and>
   execute_fetchall empty_store select_none = Inr [] \<and>
   fst (CPSSqliteDB_execute_query empty_store cps_db select_none []) = Inr []"
proof -
  have h1: "\<not> startswith_any (upper (strip select_none)) write_keywords" by code_simp
  have h2: "connect_error empty_store (sqlite_path cps_db) = None"
    by (simp add: empty_store_def)
  have h3: "execute_fetchall empty_store select_none = Inr []"
    by (simp add: empty_store_def)
  from zero_rows_empty_sequence [OF h1 h2 h3] h1 h2 h3 show ?thesis by blast
qed

lemma opened_append: "opened (t @ u) = opened t @ opened u"
  by (induction t rule: opened.induct) auto

lemma opened_conn_of: "c \<in> set (opened t) \<Longrightarrow> \<exists>e \<in> set t. conn_of e = c"
  by (induction t rule: opened.induct) auto

lemma execute_trace:
  "snd (CPSSqliteDB_execute_query lib self query t) =
     (if startswith_any (upper (strip query)) write_keywords \<or>
         connect_error lib (sqlite_path self) \<noteq> None
      then t
      else t @ [Connect (length t), OpenCursor (length t), Execute (length t) query,
                CloseCursor (length t), CloseConn (length t)])"
  by (auto simp: CPSSqliteDB_execute_query_def closing_def Let_def
           split: sum.splits option.splits)

lemma fresh_name:
  assumes "names_bounded t"
  shows "length t \<notin> set (opened t)"
  using assms opened_conn_of [of "length t" t]
  by (fastforce simp: names_bounded_def list_all_iff)

lemma leaked_session:
  assumes "names_bounded t"
  shows "leaked (t @ [Connect (length t), OpenCursor (length t), Execute (length t) q,
                CloseCursor (length t), CloseConn (length t)]) = leaked t"
proof -
  have "\<forall>c \<in> set (opened t). c \<noteq> length t"
    using fresh_name [OF assms] by blast
  then show ?thesis
    by (auto simp: leaked_def opened_append intro!: filter_cong)
qed

text \<open>
  C8. On a well-named log, an invocation of the relational query operation leaves the
  connections that are open as they were, whether it returns records or raises: the log
  only grows, and a query that passes the guard and whose connection is made opens one
  connection, under a name no earlier connection has, and closes it before it ends.
\<close>

theorem connection_released_on_every_path:
  assumes "names_bounded t"
    and "CPSSqliteDB_execute_query lib self query t = (r, t')"
  shows "leaked t' = leaked t \<and> names_bounded t' \<and> prefix t t' \<and>
         (\<not> startswith_any (upper (strip query)) write_keywords \<and>
          connect_error lib (sqlite_path self) = None \<longrightarrow>
            opened t' = opened t @ [length t] \<and> length t \<notin> set (opened t) \<and>
            CloseConn (length t) \<in> set t')"
proof -
  have t': "t' = snd (CPSSqliteDB_execute_query lib self query t)"
    using assms(2) by simp
  show ?thesis
  proof (cases "startswith_any (upper (strip query)) write_keywords \<or>
         connect_error lib (sqlite_path self) \<noteq> None")
    case True
    then have "t' = t" using t' execute_trace [of lib self query t] by auto
    then show ?thesis using True assms(1) by auto
  next
    case False
    then have eq: "t' = t @ [Connect (length t), OpenCursor (length t),
                Execute (length t) query, CloseCursor (length t), CloseConn (length t)]"
      using t' execute_trace [of lib self query t] by auto
    have "leaked t' = leaked t" unfolding eq by (rule leaked_session [OF assms(1)])
    moreover have "names_bounded t'"
      using assms(1) unfolding eq by (auto simp: names_bounded_def list_all_iff)
    moreover have "opened t' = opened t @ [length t]"
      unfolding eq by (simp add: opened_append)
    ultimately show ?thesis using fresh_name [OF assms(1)] eq by simp
  qed
qed

theorem connection_released_on_every_path_witness:
  "names_bounded [] \<and>
   CPSSqliteDB_execute_query empty_store cps_db select_none [] =
     (Inr [], [Connect 0, OpenCursor 0, Execute 0 select_none, CloseCursor 0, CloseConn 0]) \<and>
   leaked [Connect 0, OpenCursor 0, Execute 0 select_none, CloseCursor 0, CloseConn 0] = [] \<and>
   opened [Connect 0, OpenCursor 0, Execute 0 select_none, CloseCursor 0, CloseConn 0] = [0]"
proof -
  have h1: "names_bounded []" by (simp add: names_bounded_def)
  have g: "\<not> startswith_any (upper (strip select_none)) write_keywords" by code_simp
  have h2: "CPSSqliteDB_execute_query empty_store cps_db select_none [] =
     (Inr [], [Connect 0, OpenCursor 0, Execute 0 select_none, CloseCursor 0, CloseConn 0])"
    using g by (simp add: CPSSqliteDB_execute_query_def closing_def empty_store_def)
  from connection_released_on_every_path [OF h1 h2] h1 h2 show ?thesis
    by (simp add: leaked_def)
qed

section \<open>The semantic search\<close>

lemma strip_blank:
  assumes "\<forall>c \<in> set s. is_space c"
  shows "strip s = []"
proof -
  from assms have d: "dropWhile is_space s = []" by simp
  show ?thesis unfolding strip_def d by simp
qed

text \<open>
  C9. A school name made of whitespace only, the empty name included, is treated as no
  school name: the search gives what it gives when the name is absent.
\<close>

theorem blank_school_name_is_absent:
  assumes "\<forall>c \<in> set name. is_space c"
  shows "SqliteLanceDB_execute_query lib self question (Some name) =
         SqliteLanceDB_execute_query lib self question None"
  using strip_blank [OF assms]
  by (simp add: SqliteLanceDB_execute_query_def split: sum.splits)

theorem blank_school_name_is_absent_witness:
  "list_all is_space ''  '' \<and>
   SqliteLanceDB_execute_query plain_lib two_schools ''When?'' (Some ''  '') =
   SqliteLanceDB_execute_query plain_lib two_schools ''When?'' None"
proof -
  have h: "\<forall>c \<in> set ''  ''. is_space c" by (simp add: is_space_def)
  have l: "list_all is_space ''  ''" by (simp add: is_space_def)
  from l blank_school_name_is_absent [OF h] show ?thesis by (rule conjI)
qed

subsection \<open>The filter that the search writes\<close>

lemma sql_literal_plain:
  "quote \<notin> set l \<Longrightarrow> sql_literal (l @ [quote]) = Some (l, [])"
proof (induction l)
  case Nil
  then show ?case by simp
next
  case (Cons a l)
  then obtain d ds where "l @ [quote] = d # ds" by (cases l) auto
  with Cons show ?case by auto
qed

lemma sql_literal_length:
  "sql_literal s = Some (l, r) \<Longrightarrow>
     length s = length l + count_list l quote + 1 + length r"
proof (induction s arbitrary: l r rule: sql_literal.induct)
  case 1
  then show ?case by simp
next
  case (2 c)
  then show ?case by (auto split: if_splits)
next
  case (3 c d ds)
  then show ?case by (auto split: if_splits)
qed

lemma sql_literal_quoted:
  assumes "quote \<in> set l"
  shows "sql_literal (l @ [quote]) \<noteq> Some (l, [])"
proof
  assume "sql_literal (l @ [quote]) = Some (l, [])"
  from sql_literal_length [OF this] have "count_list l quote = 0" by simp
  then have "quote \<notin> set l" by (simp add: count_list_0_iff)
  then show False using assms by simp
qed

lemma startswith_append: "startswith (p @ s) p"
  by (induction p) auto

lemma parse_filter_built:
  "parse_filter (school_name_filter name) =
     (case sql_literal (title name @ [quote]) of
        Some (lit, []) \<Rightarrow> Some (SchoolNameEq lit) | _ \<Rightarrow> None)"
proof -
  have "school_name_filter name = filter_head @ (title name @ [quote])"
    by (simp add: filter_head_def school_name_filter_def)
  then show ?thesis
    unfolding parse_filter_def by (simp only: startswith_append) simp
qed

lemma parse_filter_plain:
  "quote \<notin> set (title name) \<Longrightarrow>
   parse_filter (school_name_filter name) = Some (SchoolNameEq (title name))"
  by (simp add: parse_filter_built sql_literal_plain)

text \<open>
  C10. The filter is the title-cased name put between two quotes as it is. When the
  title-cased name holds a single quote, the filter the store receives is not the
  equality test against that name: the literal ends at the name's own quote, or a
  doubled quote is read as one.
\<close>

theorem quoted_name_breaks_filter:
  assumes "quote \<in> set (title name)"
  shows "parse_filter (school_name_filter name) \<noteq> Some (SchoolNameEq (title name))"
  using sql_literal_quoted [OF assms]
  by (auto simp: parse_filter_built split: option.splits list.splits)

theorem quoted_name_breaks_filter_witness:
  "quote \<in> set (title obrien) \<and>
   parse_filter (school_name_filter obrien) \<noteq> Some (SchoolNameEq (title obrien))"
proof -
  have h: "quote \<in> set (title obrien)" by code_simp
  from quoted_name_breaks_filter [OF h] h show ?thesis by blast
qed

subsection \<open>The stages of the search\<close>

lemma to_list_unfiltered:
  "to_list lib (limit k (rerank q rr (search tbl v))) =
     (case rr q (nearest lib v tbl) of Inl e \<Rightarrow> Inl e | Inr ranked \<Rightarrow> Inr (take k ranked))"
  by (simp add: to_list_def limit_def rerank_def search_def split: sum.splits)

lemma to_list_filtered:
  "to_list lib (limit k (rerank q rr (where_filter flt True (search tbl v)))) =
     (case filter_predicate lib flt of
        Inl e \<Rightarrow> Inl e
      | Inr p \<Rightarrow>
          (case rr q (nearest lib v (filter p tbl)) of
             Inl e \<Rightarrow> Inl e | Inr ranked \<Rightarrow> Inr (take k ranked)))"
  by (simp add: to_list_def limit_def rerank_def where_filter_def search_def
           split: sum.splits)

lemma execute_query_absent:
  "SqliteLanceDB_execute_query lib self question None =
     (case embedder_encode self question of
        Inl e \<Rightarrow> Inl e
      | Inr v \<Rightarrow>
          (case reranker self question (nearest lib v (table self)) of
             Inl e \<Rightarrow> Inl e
           | Inr ranked \<Rightarrow> Inr (map search_result (take 10 ranked))))"
  by (simp add: SqliteLanceDB_execute_query_def to_list_unfiltered split: sum.splits)

lemma strip_Nil: "strip [] = []"
  by (simp add: strip_def)

lemma execute_query_blank:
  "strip name = [] \<Longrightarrow>
   SqliteLanceDB_execute_query lib self question (Some name) =
   SqliteLanceDB_execute_query lib self question None"
  by (simp add: SqliteLanceDB_execute_query_def split: sum.splits)

lemma execute_query_named:
  "strip name \<noteq> [] \<Longrightarrow>
   SqliteLanceDB_execute_query lib self question (Some name) =
     (case embedder_encode self question of
        Inl e \<Rightarrow> Inl e
      | Inr v \<Rightarrow>
          (case filter_predicate lib (school_name_filter name) of
             Inl e \<Rightarrow> Inl e
           | Inr p \<Rightarrow>
               (case reranker self question (nearest lib v (filter p (table self))) of
                  Inl e \<Rightarrow> Inl e
                | Inr ranked \<Rightarrow> Inr (map search_result (take 10 ranked)))))"
  using strip_Nil
  by (auto simp: SqliteLanceDB_execute_query_def to_list_filtered split: sum.splits)

lemma search_shape:
  assumes "SqliteLanceDB_execute_query lib self question school_name_arg = Inr results"
  shows "\<exists>v p ranked. embedder_encode self question = Inr v \<and>
            reranker self question (nearest lib v (filter p (table self))) = Inr ranked \<and>
            results = map search_result (take 10 ranked)"
proof (cases "school_name_arg = None \<or> strip (the school_name_arg) = []")
  case True
  then have "SqliteLanceDB_execute_query lib self question None = Inr results"
    using assms by (cases school_name_arg) (auto simp: execute_query_blank)
  then obtain v ranked where "embedder_encode self question = Inr v"
    and "reranker self question (nearest lib v (table self)) = Inr ranked"
    and "results = map search_result (take 10 ranked)"
    by (auto simp: execute_query_absent split: sum.splits)
  then have "embedder_encode self question = Inr v \<and>
     reranker self question (nearest lib v (filter (\<lambda>c. True) (table self))) = Inr ranked \<and>
     results = map search_result (take 10 ranked)" by simp
  then show ?thesis by blast
next
  case False
  then obtain name where n: "school_name_arg = Some name" "strip name \<noteq> []" by auto
  from assms show ?thesis unfolding n(1) execute_query_named [OF n(2)]
    by (auto split: sum.splits)
qed

text \<open>
  C2 fails on the code. With the empty question and an embedder that accepts it, the
  search returns results; with an embedder that raises on the empty text, the search
  raises that error of the embedder: the empty string reached \<^verbatim>\<open>encode\<close>.
\<close>

theorem empty_question_counterexample:
  "SqliteLanceDB_execute_query plain_lib two_schools [] None =
     Inr [search_result xyz_chunk, search_result abc_chunk] \<and>
   SqliteLanceDB_execute_query plain_lib picky_embedder [] None =
     Inl (OtherError ''empty input'')"
  by (simp add: execute_query_absent two_schools_def picky_embedder_def plain_lib_def)

text \<open>
  C2, as amended. For the empty question the search does not fail fast with an error of
  its own: it hands the empty string to the embedder, and when \<^verbatim>\<open>encode\<close> raises on
  it the search raises that same error.
\<close>

theorem empty_question_forwarded:
  assumes "embedder_encode self [] = Inl e"
  shows "SqliteLanceDB_execute_query lib self [] school_name_arg = Inl e"
  using assms by (simp add: SqliteLanceDB_execute_query_def)

theorem empty_question_forwarded_witness:
  "embedder_encode picky_embedder [] = Inl (OtherError ''empty input'') \<and>
   SqliteLanceDB_execute_query plain_lib picky_embedder [] None =
     Inl (OtherError ''empty input'')"
proof -
  have h: "embedder_encode picky_embedder [] = Inl (OtherError ''empty input'')"
    by (simp add: picky_embedder_def)
  from h empty_question_forwarded [OF h] show ?thesis by (rule conjI)
qed

text \<open>
  C3. What the search returns is the reranker's ranking of the surviving candidates, cut
  to its first ten and projected row by row: at most ten results, in the reranker's order.
\<close>

theorem at_most_ten_in_reranker_order:
  assumes "SqliteLanceDB_execute_query lib self question school_name_arg = Inr results"
  shows "length results \<le> 10 \<and>
         (\<exists>v p ranked. embedder_encode self question = Inr v \<and>
            reranker self question (nearest lib v (filter p (table self))) = Inr ranked \<and>
            results = map search_result (take 10 ranked))"
proof -
  from search_shape [OF assms] obtain v p ranked where
    s: "embedder_encode self question = Inr v"
       "reranker self question (nearest lib v (filter p (table self))) = Inr ranked"
       "results = map search_result (take 10 ranked)"
    by blast
  from s(3) have "length results \<le> 10" by simp
  with s show ?thesis by blast
qed

theorem at_most_ten_in_reranker_order_witness:
  "SqliteLanceDB_execute_query plain_lib two_schools ''When?'' None =
     Inr [search_result xyz_chunk, search_result abc_chunk] \<and>
   length [search_result xyz_chunk, search_result abc_chunk] \<le> 10 \<and>
   (\<exists>v p ranked. embedder_encode two_schools ''When?'' = Inr v \<and>
      reranker two_schools ''When?'' (nearest plain_lib v (filter p (table two_schools))) =
        Inr ranked \<and>
      [search_result xyz_chunk, search_result abc_chunk] =
        map search_result (take 10 ranked))"
proof -
  have h: "SqliteLanceDB_execute_query plain_lib two_schools ''When?'' None =
     Inr [search_result xyz_chunk, search_result abc_chunk]"
    by (simp add: execute_query_absent two_schools_def plain_lib_def)
  from at_most_ten_in_reranker_order [OF h] h show ?thesis by blast
qed

subsection \<open>The school-name filter\<close>

lemma plain_nearest: "\<forall>v rows. set (nearest plain_lib v rows) \<subseteq> set rows"
  by (simp add: plain_lib_def)

lemma rev_reranker:
  "\<forall>q rows ranked. reranker two_schools q rows = Inr ranked \<longrightarrow> set ranked \<subseteq> set rows"
  by (auto simp: two_schools_def)

lemma rev_reranker3:
  "\<forall>q rows ranked. reranker three_chunks q rows = Inr ranked \<longrightarrow> set ranked \<subseteq> set rows"
  by (auto simp: two_schools_def three_chunks_def)

lemma abc_strip: "strip ''abc high school'' \<noteq> []"
  by code_simp

lemma abc_title: "title ''abc high school'' = ''Abc High School''"
  by code_simp

lemma abc_noquote: "quote \<notin> set (title ''abc high school'')"
  by code_simp

lemma abc_filter_predicate:
  "filter_predicate lib (school_name_filter ''abc high school'') =
     Inr (\<lambda>c. school_name (metadata c) = ''Abc High School'')"
  using parse_filter_plain [OF abc_noquote] by (simp add: filter_predicate_def abc_title)

lemma three_result:
  "SqliteLanceDB_execute_query plain_lib three_chunks ''When?'' (Some ''abc high school'') =
     Inr [search_result abc_titled_chunk]"
  unfolding execute_query_named [OF abc_strip] abc_filter_predicate
  by (simp add: three_chunks_def two_schools_def plain_lib_def abc_chunk_def
        abc_titled_chunk_def xyz_chunk_def)

lemma school_name_of_result:
  "map_of (search_result c) ''school_name'' = Some (school_name (metadata c))"
  by (simp add: search_result_def)

lemma injection_strip: "strip or_injection \<noteq> []"
  by code_simp

lemma injection_parse: "parse_filter (school_name_filter or_injection) = None"
  by code_simp

lemma injection_title:
  "title or_injection \<noteq> ''ABC HIGH SCHOOL'' \<and> title or_injection \<noteq> ''XYZ ACADEMY''"
  by code_simp

text \<open>
  C4 fails on the code for two kinds of non-empty school name. A name of one space is
  taken as no name, and rows of every school come back. A name that holds a single quote
  changes the filter: with the name \<open>or_injection\<close> the rows of both schools come back,
  and neither school is named as the title-cased input is.
\<close>

theorem non_empty_name_counterexample:
  "'' '' \<noteq> [] \<and>
   SqliteLanceDB_execute_query plain_lib two_schools ''When?'' (Some '' '') =
     Inr [search_result xyz_chunk, search_result abc_chunk] \<and>
   map_of (search_result xyz_chunk) ''school_name'' \<noteq> Some (title '' '') \<and>
   or_injection \<noteq> [] \<and>
   SqliteLanceDB_execute_query sql_or_lib two_schools ''When?'' (Some or_injection) =
     Inr [search_result xyz_chunk, search_result abc_chunk] \<and>
   map_of (search_result xyz_chunk) ''school_name'' \<noteq> Some (title or_injection)"
proof -
  have "strip '' '' = []" by code_simp
  then have a: "SqliteLanceDB_execute_query plain_lib two_schools ''When?'' (Some '' '') =
     Inr [search_result xyz_chunk, search_result abc_chunk]"
    by (simp add: execute_query_blank execute_query_absent two_schools_def plain_lib_def)
  have b: "map_of (search_result xyz_chunk) ''school_name'' \<noteq> Some (title '' '')"
    by (simp add: school_name_of_result xyz_chunk_def title_def)
  have "filter_predicate sql_or_lib (school_name_filter or_injection) = Inr (\<lambda>c. True)"
    by (simp add: filter_predicate_def injection_parse sql_or_lib_def)
  then have c: "SqliteLanceDB_execute_query sql_or_lib two_schools ''When?''
       (Some or_injection) = Inr [search_result xyz_chunk, search_result abc_chunk]"
    unfolding execute_query_named [OF injection_strip]
    by (simp add: two_schools_def sql_or_lib_def)
  have d: "map_of (search_result xyz_chunk) ''school_name'' \<noteq> Some (title or_injection)"
    using injection_title by (auto simp: school_name_of_result xyz_chunk_def)
  have e: "or_injection \<noteq> []" by (simp add: or_injection_def)
  from a b c d e show ?thesis by simp
qed

text \<open>
  C4, as amended. For a school name that is not blank (something is left after
  stripping) and whose title-cased form holds no single quote, every result carries
  exactly the title-cased name as its school name, provided the lookup and the reranker
  return rows they were given.
\<close>

theorem filtered_results_match_title:
  assumes "strip name \<noteq> []"
    and "quote \<notin> set (title name)"
    and "\<forall>v rows. set (nearest lib v rows) \<subseteq> set rows"
    and "\<forall>q rows ranked. reranker self q rows = Inr ranked \<longrightarrow> set ranked \<subseteq> set rows"
    and "SqliteLanceDB_execute_query lib self question (Some name) = Inr results"
  shows "\<forall>r \<in> set results. map_of r ''school_name'' = Some (title name)"
proof -
  have fp: "filter_predicate lib (school_name_filter name) =
              Inr (\<lambda>c. school_name (metadata c) = title name)"
    by (simp add: filter_predicate_def parse_filter_plain [OF assms(2)])
  from assms(5) obtain v ranked where
    r: "reranker self question
          (nearest lib v (filter (\<lambda>c. school_name (metadata c) = title name) (table self))) =
        Inr ranked"
    and res: "results = map search_result (take 10 ranked)"
    unfolding execute_query_named [OF assms(1)] fp by (auto split: sum.splits)
  have "set ranked \<subseteq> set (filter (\<lambda>c. school_name (metadata c) = title name) (table self))"
    using assms(3) assms(4) r by blast
  then have "\<forall>c \<in> set (take 10 ranked). school_name (metadata c) = title name"
    using set_take_subset [of 10 ranked] by auto
  then show ?thesis unfolding res by (auto simp: school_name_of_result)
qed

theorem filtered_results_match_title_witness:
  "strip ''abc high school'' \<noteq> [] \<and> quote \<notin> set (title ''abc high school'') \<and>
   SqliteLanceDB_execute_query plain_lib three_chunks ''When?'' (Some ''abc high school'') =
     Inr [search_result abc_titled_chunk] \<and>
   list_all (\<lambda>r. map_of r ''school_name'' = Some (title ''abc high school''))
     [search_result abc_titled_chunk]"
proof -
  from filtered_results_match_title
         [OF abc_strip abc_noquote plain_nearest rev_reranker3 three_result]
  have "list_all (\<lambda>r. map_of r ''school_name'' = Some (title ''abc high school''))
     [search_result abc_titled_chunk]"
    by (simp only: list_all_iff)
  with abc_strip abc_noquote three_result show ?thesis by blast
qed

lemma abc_search_value:
  "SqliteLanceDB_execute_query plain_lib two_schools ''What time does school start?''
     (Some ''abc high school'') = Inr []"
  unfolding execute_query_named [OF abc_strip] abc_filter_predicate
  by (simp add: two_schools_def plain_lib_def abc_chunk_def xyz_chunk_def)

lemma abc_titled_search_value:
  "SqliteLanceDB_execute_query plain_lib three_chunks ''What time does school start?''
     (Some ''abc high school'') = Inr [search_result abc_titled_chunk]"
  unfolding execute_query_named [OF abc_strip] abc_filter_predicate
  by (simp add: three_chunks_def two_schools_def plain_lib_def abc_chunk_def
        abc_titled_chunk_def xyz_chunk_def)

text \<open>
  C5 fails on the code. Against the table of one row of ABC HIGH SCHOOL and one row of
  XYZ ACADEMY, the question ``What time does school start?'' with the school name
  ``abc high school'' returns nothing: the row of ABC HIGH SCHOOL is in the table and is
  not returned, because the filter tests against the title-cased name.
\<close>

theorem scenario_c_counterexample:
  "SqliteLanceDB_execute_query plain_lib two_schools ''What time does school start?''
     (Some ''abc high school'') = Inr [] \<and>
   abc_chunk \<in> set (table two_schools) \<and>
   school_name (metadata abc_chunk) = ''ABC HIGH SCHOOL'' \<and>
   title ''abc high school'' = ''Abc High School''"
proof -
  have "abc_chunk \<in> set (table two_schools)" by (simp add: two_schools_def)
  moreover have "school_name (metadata abc_chunk) = ''ABC HIGH SCHOOL''"
    by (simp add: abc_chunk_def)
  ultimately show ?thesis using abc_search_value abc_title by simp
qed

text \<open>
  C5, as amended. The question ``What time does school start?'' with the school name
  ``abc high school'' returns only rows whose school name is ``Abc High School'', the
  title-cased name: the reranker's ranking of the candidates with that name, cut to its
  first ten. Against a table whose rows are all of ABC HIGH SCHOOL or of XYZ ACADEMY it
  returns no row. The lookup and the reranker are taken to return rows they were given.
\<close>

theorem scenario_c_title_cased:
  assumes "\<forall>v rows. set (nearest lib v rows) \<subseteq> set rows"
    and "\<forall>q rows ranked. reranker self q rows = Inr ranked \<longrightarrow> set ranked \<subseteq> set rows"
    and "SqliteLanceDB_execute_query lib self ''What time does school start?''
           (Some ''abc high school'') = Inr results"
  shows "(\<forall>r \<in> set results. map_of r ''school_name'' = Some ''Abc High School'') \<and>
         length results \<le> 10 \<and>
         (\<exists>v ranked. embedder_encode self ''What time does school start?'' = Inr v \<and>
            reranker self ''What time does school start?''
              (nearest lib v
                 (filter (\<lambda>c. school_name (metadata c) = ''Abc High School'') (table self))) =
              Inr ranked \<and>
            results = map search_result (take 10 ranked)) \<and>
         ((\<forall>c \<in> set (table self).
              school_name (metadata c) = ''ABC HIGH SCHOOL'' \<or>
              school_name (metadata c) = ''XYZ ACADEMY'') \<longrightarrow> results = [])"
proof -
  from assms(3) obtain v ranked where
    e: "embedder_encode self ''What time does school start?'' = Inr v"
    and r: "reranker self ''What time does school start?''
          (nearest lib v (filter (\<lambda>c. school_name (metadata c) = ''Abc High School'')
             (table self))) = Inr ranked"
    and res: "results = map search_result (take 10 ranked)"
    unfolding execute_query_named [OF abc_strip] abc_filter_predicate
    by (auto split: sum.splits)
  have sub: "set ranked \<subseteq>
      set (filter (\<lambda>c. school_name (metadata c) = ''Abc High School'') (table self))"
    using assms(1) assms(2) r by blast
  then have "\<forall>c \<in> set (take 10 ranked). school_name (metadata c) = ''Abc High School''"
    using set_take_subset [of 10 ranked] by auto
  then have names: "\<forall>r \<in> set results. map_of r ''school_name'' = Some ''Abc High School''"
    unfolding res by (auto simp: school_name_of_result)
  have len: "length results \<le> 10" unfolding res by simp
  have empty: "results = []"
    if "\<forall>c \<in> set (table self).
          school_name (metadata c) = ''ABC HIGH SCHOOL'' \<or>
          school_name (metadata c) = ''XYZ ACADEMY''"
  proof -
    from that have
      "filter (\<lambda>c. school_name (metadata c) = ''Abc High School'') (table self) = []"
      by (auto simp: filter_empty_conv)
    with sub have "ranked = []" by simp
    then show ?thesis unfolding res by simp
  qed
  from names len e r res empty show ?thesis by blast
qed

theorem scenario_c_title_cased_witness:
  "SqliteLanceDB_execute_query plain_lib three_chunks ''What time does school start?''
     (Some ''abc high school'') = Inr [search_result abc_titled_chunk] \<and>
   list_all (\<lambda>r. map_of r ''school_name'' = Some ''Abc High School'')
     [search_result abc_titled_chunk] \<and>
   list_all (\<lambda>c. school_name (metadata c) = ''ABC HIGH SCHOOL'' \<or>
                school_name (metadata c) = ''XYZ ACADEMY'') (table two_schools) \<and>
   SqliteLanceDB_execute_query plain_lib two_schools ''What time does school start?''
     (Some ''abc high school'') = Inr []"
proof -
  from scenario_c_title_cased [OF plain_nearest rev_reranker3 abc_titled_search_value]
  have a: "list_all (\<lambda>r. map_of r ''school_name'' = Some ''Abc High School'')
     [search_result abc_titled_chunk]"
    by (simp only: list_all_iff) blast
  have h: "\<forall>c \<in> set (table two_schools).
             school_name (metadata c) = ''ABC HIGH SCHOOL'' \<or>
             school_name (metadata c) = ''XYZ ACADEMY''"
    by (simp add: two_schools_def abc_chunk_def xyz_chunk_def)
  then have b: "list_all (\<lambda>c. school_name (metadata c) = ''ABC HIGH SCHOOL'' \<or>
                school_name (metadata c) = ''XYZ ACADEMY'') (table two_schools)"
    by (simp only: list_all_iff)
  from scenario_c_title_cased [OF plain_nearest rev_reranker abc_search_value] h
  have "([] :: (string \<times> string) list list) = []" by blast
  with a b abc_titled_search_value abc_search_value show ?thesis by blast
qed

section \<open>The dispatcher\<close>

lemma handler_text:
  "call_tool_body srv name arguments t = (Inl e, t') \<Longrightarrow>
   handle_call_tool srv name arguments t =
     (Inr [TextContent ((case e of SqliteError m \<Rightarrow> ''Database error: '' | _ \<Rightarrow> ''Error: '')
                          @ str_error e)], t')"
  by (cases e) (simp_all add: handle_call_tool_def)

lemma body_single_text:
  "call_tool_body srv name arguments t = (Inr response, t') \<Longrightarrow>
   \<exists>txt. response = [TextContent txt]"
  by (auto simp: call_tool_body_def split: if_splits sum.splits prod.splits)

lemma handler_passes_result:
  "call_tool_body srv name arguments t = (Inr response, t') \<Longrightarrow>
   handle_call_tool srv name arguments t = (Inr response, t')"
  by (simp add: handle_call_tool_def)

text \<open>
  C6. The dispatcher never raises: whatever the tool name, the arguments and the
  libraries do, it returns one text item. An unknown tool name gives the text
  ``Error: Unknown tool: '' followed by the name. When the body raises, the text is the
  message of the exception after a label, ``Database error: '' for an error of the
  relational store and ``Error: '' for any other; the shape of the response is the same.
\<close>

theorem dispatcher_catches_every_exception:
  "(\<exists>txt. fst (handle_call_tool srv name arguments t) = Inr [TextContent txt]) \<and>
   (name \<noteq> ''query_schools_and_neighborhoods'' \<and> name \<noteq> ''query_school_websites'' \<longrightarrow>
      handle_call_tool srv name arguments t =
        (Inr [TextContent (''Error: Unknown tool: '' @ name)], t)) \<and>
   (\<forall>e t'. call_tool_body srv name arguments t = (Inl e, t') \<longrightarrow>
      handle_call_tool srv name arguments t =
        (Inr [TextContent
               ((case e of SqliteError m \<Rightarrow> ''Database error: '' | _ \<Rightarrow> ''Error: '')
                @ str_error e)], t'))"
proof -
  obtain r t' where b: "call_tool_body srv name arguments t = (r, t')"
    by (cases "call_tool_body srv name arguments t")
  have one: "\<exists>txt. fst (handle_call_tool srv name arguments t) = Inr [TextContent txt]"
  proof (cases r)
    case (Inl e)
    with b handler_text [of srv name arguments t e t'] show ?thesis by simp
  next
    case (Inr response)
    with b body_single_text [of srv name arguments t response t']
      handler_passes_result [of srv name arguments t response t']
    show ?thesis by auto
  qed
  have unknown: "handle_call_tool srv name arguments t =
        (Inr [TextContent (''Error: Unknown tool: '' @ name)], t)"
    if "name \<noteq> ''query_schools_and_neighborhoods''" and "name \<noteq> ''query_school_websites''"
  proof -
    from that have "call_tool_body srv name arguments t =
        (Inl (ValueError (''Unknown tool: '' @ name)), t)"
      by (simp add: call_tool_body_def)
    from handler_text [OF this] show ?thesis by simp
  qed
  from one unknown handler_text show ?thesis by blast
qed

theorem dispatcher_catches_every_exception_witness:
  "''query_teachers'' \<noteq> ''query_schools_and_neighborhoods'' \<and>
   ''query_teachers'' \<noteq> ''query_school_websites'' \<and>
   handle_call_tool example_server ''query_teachers'' None [] =
     (Inr [TextContent (''Error: Unknown tool: '' @ ''query_teachers'')], [])"
proof -
  have h1: "''query_teachers'' \<noteq> ''query_schools_and_neighborhoods''" by simp
  have h2: "''query_teachers'' \<noteq> ''query_school_websites''" by simp
  from dispatcher_catches_every_exception [of example_server "''query_teachers''" None "[]"]
    h1 h2
  show ?thesis by blast
qed

end
